theory Spec2Isabelle
  imports Complex_Main
begin

section \<open>Race Predictor: the model core of \<^verbatim>\<open>src/App.tsx\<close>\<close>

text \<open>
  The model core of the application (time parsing, recency weighting, fitness proxies,
  Riegel baseline, workout curve, blend) is embedded function by function.

  Numbers. A JavaScript number is modelled by \<open>jsnum\<close>: \<open>NaN\<close>, the two infinities, or
  a finite value carried as an exact real. The special values follow IEEE 754 as
  ECMAScript prescribes; finite arithmetic is exact (no rounding, no overflow to
  infinity, no underflow to zero), and zero is unsigned (a zero divisor counts as \<open>+0\<close>).

  Host. \<^verbatim>\<open>Date.now()\<close> and the string parsing of \<^verbatim>\<open>new Date(s).getTime()\<close> belong to
  the engine and the wall clock; they are the two fields of the record \<open>host\<close>, a
  parameter of every function that reads them. All clock reads of one call see the same
  instant.
\<close>

subsection \<open>JavaScript numbers\<close>

datatype jsnum = NaN | PInf | NInf | Fin real

text \<open>Sign of a value as a real (\<open>NaN\<close> has none and is given 0).\<close>

fun jsign :: "jsnum \<Rightarrow> real" where
  "jsign NaN = 0"
| "jsign PInf = 1"
| "jsign NInf = - 1"
| "jsign (Fin a) = sgn a"

text \<open>The infinity of a given sign; sign 0 is the invalid operation.\<close>

definition signedInf :: "real \<Rightarrow> jsnum" where
  "signedInf s = (if 0 < s then PInf else if s < 0 then NInf else NaN)"

instantiation jsnum :: "{plus, uminus, minus, times, inverse, ord}"
begin

fun plus_jsnum :: "jsnum \<Rightarrow> jsnum \<Rightarrow> jsnum" where
  "Fin a + Fin b = Fin (a + b)"
| "NaN + y = NaN"
| "x + NaN = NaN"
| "PInf + NInf = NaN"
| "NInf + PInf = NaN"
| "PInf + y = PInf"
| "NInf + y = NInf"
| "Fin a + y = y"

fun uminus_jsnum :: "jsnum \<Rightarrow> jsnum" where
  "- NaN = NaN"
| "- PInf = NInf"
| "- NInf = PInf"
| "- Fin a = Fin (- a)"

definition minus_jsnum :: "jsnum \<Rightarrow> jsnum \<Rightarrow> jsnum" where
  "minus_jsnum x y = x + (- y)"

fun times_jsnum :: "jsnum \<Rightarrow> jsnum \<Rightarrow> jsnum" where
  "Fin a * Fin b = Fin (a * b)"
| "NaN * y = NaN"
| "x * NaN = NaN"
| "x * y = signedInf (jsign x * jsign y)"

fun divide_jsnum :: "jsnum \<Rightarrow> jsnum \<Rightarrow> jsnum" where
  "divide_jsnum (Fin a) (Fin b) = (if b = 0 then signedInf a else Fin (a / b))"
| "divide_jsnum NaN y = NaN"
| "divide_jsnum x NaN = NaN"
| "divide_jsnum (Fin a) y = Fin 0"
| "divide_jsnum x (Fin b) = signedInf (jsign x * (if b < 0 then - 1 else 1))"
| "divide_jsnum x y = NaN"

definition inverse_jsnum :: "jsnum \<Rightarrow> jsnum" where
  "inverse_jsnum x = divide (Fin 1) x"

text \<open>Comparisons: every comparison with \<open>NaN\<close> is false.\<close>

fun less_jsnum :: "jsnum \<Rightarrow> jsnum \<Rightarrow> bool" where
  "Fin a < Fin b = (a < b)"
| "NaN < y = False"
| "x < NaN = False"
| "PInf < y = False"
| "x < NInf = False"
| "x < PInf = True"
| "NInf < y = True"

fun less_eq_jsnum :: "jsnum \<Rightarrow> jsnum \<Rightarrow> bool" where
  "Fin a \<le> Fin b = (a \<le> b)"
| "NaN \<le> y = False"
| "x \<le> NaN = False"
| "x \<le> PInf = True"
| "NInf \<le> y = True"
| "PInf \<le> y = False"
| "x \<le> NInf = False"

instance ..

end

text \<open>\<^verbatim>\<open>isFinite\<close>, \<^verbatim>\<open>isNaN\<close> and the truthiness of a number (\<open>0\<close> and \<open>NaN\<close> are falsy).\<close>

fun isFinite :: "jsnum \<Rightarrow> bool" where
  "isFinite (Fin a) = True"
| "isFinite x = False"

fun isNaN :: "jsnum \<Rightarrow> bool" where
  "isNaN NaN = True"
| "isNaN x = False"

fun truthy :: "jsnum \<Rightarrow> bool" where
  "truthy NaN = False"
| "truthy (Fin a) = (a \<noteq> 0)"
| "truthy x = True"

text \<open>\<^verbatim>\<open>x || d\<close> on numbers.\<close>

definition orElse :: "jsnum \<Rightarrow> jsnum \<Rightarrow> jsnum" where
  "orElse x d = (if truthy x then x else d)"

text \<open>\<^verbatim>\<open>Math.min\<close>, \<^verbatim>\<open>Math.max\<close>: \<open>NaN\<close> if an argument is \<open>NaN\<close>.\<close>

fun Math_min :: "jsnum \<Rightarrow> jsnum \<Rightarrow> jsnum" where
  "Math_min (Fin a) (Fin b) = Fin (min a b)"
| "Math_min NaN y = NaN"
| "Math_min x NaN = NaN"
| "Math_min NInf y = NInf"
| "Math_min x NInf = NInf"
| "Math_min PInf y = y"
| "Math_min x PInf = x"

fun Math_max :: "jsnum \<Rightarrow> jsnum \<Rightarrow> jsnum" where
  "Math_max (Fin a) (Fin b) = Fin (max a b)"
| "Math_max NaN y = NaN"
| "Math_max x NaN = NaN"
| "Math_max PInf y = PInf"
| "Math_max x PInf = PInf"
| "Math_max NInf y = y"
| "Math_max x NInf = x"

text \<open>\<^verbatim>\<open>Math.log\<close>, \<^verbatim>\<open>Math.exp\<close>, \<^verbatim>\<open>Math.tanh\<close>.\<close>

fun Math_log :: "jsnum \<Rightarrow> jsnum" where
  "Math_log (Fin a) = (if a < 0 then NaN else if a = 0 then NInf else Fin (ln a))"
| "Math_log PInf = PInf"
| "Math_log x = NaN"

fun Math_exp :: "jsnum \<Rightarrow> jsnum" where
  "Math_exp (Fin a) = Fin (exp a)"
| "Math_exp PInf = PInf"
| "Math_exp NInf = Fin 0"
| "Math_exp NaN = NaN"

fun Math_tanh :: "jsnum \<Rightarrow> jsnum" where
  "Math_tanh (Fin a) = Fin (tanh a)"
| "Math_tanh PInf = Fin 1"
| "Math_tanh NInf = Fin (- 1)"
| "Math_tanh NaN = NaN"

text \<open>
  \<^verbatim>\<open>Math.pow\<close> (ECMAScript \<open>Number::exponentiate\<close>), case by case in the standard's
  order. \<open>isOddInt e\<close> says that the real \<open>e\<close> is an odd integer.
\<close>

definition isInt :: "real \<Rightarrow> bool" where
  "isInt e = (e = of_int \<lfloor>e\<rfloor>)"

definition isOddInt :: "real \<Rightarrow> bool" where
  "isOddInt e = (isInt e \<and> odd \<lfloor>e\<rfloor>)"

fun Math_pow :: "jsnum \<Rightarrow> jsnum \<Rightarrow> jsnum" where
  "Math_pow x NaN = NaN"
| "Math_pow NaN (Fin e) = (if e = 0 then Fin 1 else NaN)"
| "Math_pow NaN y = NaN"
| "Math_pow PInf (Fin e) = (if e = 0 then Fin 1 else if 0 < e then PInf else Fin 0)"
| "Math_pow PInf PInf = PInf"
| "Math_pow PInf NInf = Fin 0"
| "Math_pow NInf (Fin e) =
     (if e = 0 then Fin 1
      else if 0 < e then (if isOddInt e then NInf else PInf)
      else Fin 0)"
| "Math_pow NInf PInf = PInf"
| "Math_pow NInf NInf = Fin 0"
| "Math_pow (Fin a) PInf =
     (if 1 < \<bar>a\<bar> then PInf else if \<bar>a\<bar> = 1 then NaN else Fin 0)"
| "Math_pow (Fin a) NInf =
     (if 1 < \<bar>a\<bar> then Fin 0 else if \<bar>a\<bar> = 1 then NaN else PInf)"
| "Math_pow (Fin a) (Fin e) =
     (if e = 0 then Fin 1
      else if a = 0 then (if 0 < e then Fin 0 else PInf)
      else if 0 < a then Fin (a powr e)
      else if isInt e then Fin ((if odd \<lfloor>e\<rfloor> then - 1 else 1) * (\<bar>a\<bar> powr e))
      else NaN)"

text \<open>\<^verbatim>\<open>const clamp = (x, a, b) => Math.min(b, Math.max(a, x));\<close>\<close>

definition clamp :: "jsnum \<Rightarrow> jsnum \<Rightarrow> jsnum \<Rightarrow> jsnum" where
  "clamp x a b = Math_min b (Math_max a x)"

subsection \<open>Strings and the built-in number parsers\<close>

text \<open>
  A string is a list of characters, one \<open>char\<close> per code unit (code units up to
  \<open>0xFF\<close>). \<open>isWhite\<close> holds of the ECMAScript white space and line terminators in that
  range; these are what \<^verbatim>\<open>trim\<close>, \<^verbatim>\<open>parseInt\<close> and \<^verbatim>\<open>parseFloat\<close> strip.
\<close>

definition isWhite :: "char \<Rightarrow> bool" where
  "isWhite c =
     (c \<in> set [CHR 0x09, CHR 0x0A, CHR 0x0B, CHR 0x0C, CHR 0x0D, CHR '' '', CHR 0xA0])"

definition isDigit :: "char \<Rightarrow> bool" where
  "isDigit c = (c \<in> set ''0123456789'')"

definition digitVal :: "char \<Rightarrow> nat" where
  "digitVal c = of_char c - 48"

definition digitsVal :: "string \<Rightarrow> nat" where
  "digitsVal ds = foldl (\<lambda>acc c. 10 * acc + digitVal c) 0 ds"

definition trimStart :: "string \<Rightarrow> string" where
  "trimStart s = dropWhile isWhite s"

definition trim :: "string \<Rightarrow> string" where
  "trim s = rev (dropWhile isWhite (rev (dropWhile isWhite s)))"

text \<open>\<^verbatim>\<open>s.split(":")\<close>: the empty string gives one empty part.\<close>

fun splitColon :: "string \<Rightarrow> string list" where
  "splitColon [] = [[]]"
| "splitColon (c # cs) =
     (if c = CHR '':'' then [] # splitColon cs
      else (case splitColon cs of
              [] \<Rightarrow> [[c]]
            | p # ps \<Rightarrow> (c # p) # ps))"

text \<open>An optional leading sign: the sign and the rest.\<close>

definition takeSign :: "string \<Rightarrow> int \<times> string" where
  "takeSign s =
     (case s of
        [] \<Rightarrow> (1, s)
      | c # r \<Rightarrow> if c = CHR ''-'' then (- 1, r) else if c = CHR ''+'' then (1, r) else (1, s))"

text \<open>
  \<^verbatim>\<open>parseInt(s, 10)\<close>: leading white space, an optional sign, then the longest run of
  decimal digits; \<open>NaN\<close> when that run is empty.
\<close>

definition parseInt10 :: "string \<Rightarrow> jsnum" where
  "parseInt10 s =
     (let (sg, r) = takeSign (trimStart s); ds = takeWhile isDigit r
      in if ds = [] then NaN else Fin (of_int sg * of_nat (digitsVal ds)))"

text \<open>
  \<^verbatim>\<open>parseFloat(s)\<close>: leading white space, then the longest prefix that is a
  \<open>StrDecimalLiteral\<close>: an optional sign, then \<^verbatim>\<open>Infinity\<close> or digits with an optional
  fraction and an optional exponent (an exponent mark without digits is not part of the
  prefix). \<open>NaN\<close> when there is no such prefix.
\<close>

definition pow10 :: "int \<Rightarrow> real" where
  "pow10 e = (if 0 \<le> e then 10 ^ nat e else 1 / 10 ^ nat (- e))"

definition exponentPart :: "string \<Rightarrow> int" where
  "exponentPart s =
     (case s of
        [] \<Rightarrow> 0
      | c # r \<Rightarrow>
          if c = CHR ''e'' \<or> c = CHR ''E''
          then (let (sg, r') = takeSign r; ds = takeWhile isDigit r'
                in if ds = [] then 0 else sg * int (digitsVal ds))
          else 0)"

definition parseFloat :: "string \<Rightarrow> jsnum" where
  "parseFloat s =
     (let (sg, r) = takeSign (trimStart s)
      in if take 8 r = ''Infinity'' then signedInf (of_int sg)
         else
           (let ip = takeWhile isDigit r;
                r1 = dropWhile isDigit r;
                (fp, r2) = (case r1 of
                              [] \<Rightarrow> ([], r1)
                            | c # r' \<Rightarrow>
                                if c = CHR ''.''
                                then (takeWhile isDigit r', dropWhile isDigit r')
                                else ([], r1))
            in if ip = [] \<and> fp = [] then NaN
               else Fin (of_int sg
                         * (of_nat (digitsVal ip) + of_nat (digitsVal fp) / 10 ^ length fp)
                         * pow10 (exponentPart r2))))"

subsection \<open>Utilities\<close>

text \<open>
  \<^verbatim>\<open>function parseTimeToSeconds(str)\<close>. The argument is a string, so \<^verbatim>\<open>!str\<close> holds
  exactly of the empty string.
\<close>

definition parseTimeToSeconds :: "string \<Rightarrow> jsnum" where
  "parseTimeToSeconds str =
     (if str = [] then NaN
      else
        (case splitColon (trim str) of
           [p] \<Rightarrow> parseFloat p
         | [m, s] \<Rightarrow> orElse (parseInt10 m) (Fin 0) * Fin 60 + orElse (parseFloat s) (Fin 0)
         | [h, m, s] \<Rightarrow>
             orElse (parseInt10 h) (Fin 0) * Fin 3600
             + orElse (parseInt10 m) (Fin 0) * Fin 60
             + orElse (parseFloat s) (Fin 0)
         | _ \<Rightarrow> NaN))"

text \<open>\<^verbatim>\<open>const DAY = 24 * 3600 * 1000;\<close>\<close>

definition DAY :: jsnum where
  "DAY = Fin 24 * Fin 3600 * Fin 1000"

subsection \<open>Lookup tables\<close>

text \<open>
  \<^verbatim>\<open>RIEGEL_BY_TYPE\<close> and \<^verbatim>\<open>TYPE_WEIGHTS\<close> are object literals read with
  \<^verbatim>\<open>TABLE[typeKey]\<close>. Such a read finds the table's own property, or else a property
  that every object literal inherits from \<^verbatim>\<open>Object.prototype\<close> (a function, or for
  \<^verbatim>\<open>__proto__\<close> the prototype object itself), or else \<^verbatim>\<open>undefined\<close>.
\<close>

datatype 'a property = Own 'a | Inherited | Undefined

definition objectPrototypeKeys :: "string list" where
  "objectPrototypeKeys =
     [''constructor'', ''hasOwnProperty'', ''isPrototypeOf'', ''propertyIsEnumerable'',
      ''toLocaleString'', ''toString'', ''valueOf'', ''__proto__'',
      ''__defineGetter__'', ''__defineSetter__'', ''__lookupGetter__'', ''__lookupSetter__'']"

definition getProperty :: "(string \<times> 'a) list \<Rightarrow> string \<Rightarrow> 'a property" where
  "getProperty table key =
     (case map_of table key of
        Some v \<Rightarrow> Own v
      | None \<Rightarrow> if key \<in> set objectPrototypeKeys then Inherited else Undefined)"

definition RIEGEL_BY_TYPE :: "(string \<times> jsnum) list" where
  "RIEGEL_BY_TYPE =
     [(''400/800'', Fin 1.12),
      (''800'', Fin 1.10),
      (''800/1500/miler'', Fin 1.085),
      (''1500/miler'', Fin 1.08),
      (''1500/5000'', Fin 1.07),
      (''5000'', Fin 1.065),
      (''5000/10000'', Fin 1.06),
      (''10000/marathon'', Fin 1.055),
      (''marathon'', Fin 1.05)]"

definition TYPE_WEIGHTS :: "(string \<times> jsnum \<times> jsnum) list" where
  "TYPE_WEIGHTS =
     [(''400/800'', Fin 0.70, Fin 0.30),
      (''800'', Fin 0.65, Fin 0.35),
      (''800/1500/miler'', Fin 0.58, Fin 0.42),
      (''1500/miler'', Fin 0.52, Fin 0.48),
      (''1500/5000'', Fin 0.45, Fin 0.55),
      (''5000'', Fin 0.38, Fin 0.62),
      (''5000/10000'', Fin 0.32, Fin 0.68),
      (''10000/marathon'', Fin 0.25, Fin 0.75),
      (''marathon'', Fin 0.18, Fin 0.82)]"

text \<open>Failures of the engine that the code does not catch.\<close>

datatype jserror = TypeError

text \<open>
  \<^verbatim>\<open>RIEGEL_BY_TYPE[typeKey] || 1.08\<close>. An inherited property is an object, hence truthy,
  and the exponent is then used as a number: \<open>ToNumber\<close> of a function or of a plain
  object is \<open>NaN\<close>.
\<close>

definition riegelExponent :: "string \<Rightarrow> jsnum" where
  "riegelExponent typeKey =
     (case getProperty RIEGEL_BY_TYPE typeKey of
        Own b \<Rightarrow> orElse b (Fin 1.08)
      | Inherited \<Rightarrow> NaN
      | Undefined \<Rightarrow> Fin 1.08)"

text \<open>
  \<^verbatim>\<open>const [wShort, wLong] = TYPE_WEIGHTS[typeKey] || [0.5, 0.5];\<close> An inherited
  property is truthy, so the default is not taken, and it is not iterable: the array
  destructuring throws a \<^verbatim>\<open>TypeError\<close>.
\<close>

definition typeWeights :: "string \<Rightarrow> jserror + jsnum \<times> jsnum" where
  "typeWeights typeKey =
     (case getProperty TYPE_WEIGHTS typeKey of
        Own p \<Rightarrow> Inr p
      | Inherited \<Rightarrow> Inl TypeError
      | Undefined \<Rightarrow> Inr (Fin 0.5, Fin 0.5))"

subsection \<open>Baseline curve\<close>

text \<open>\<^verbatim>\<open>function riegelPredict(t1, d1, d2, b) { return t1 * Math.pow(d2/d1, b); }\<close>\<close>

definition riegelPredict :: "jsnum \<Rightarrow> jsnum \<Rightarrow> jsnum \<Rightarrow> jsnum \<Rightarrow> jsnum" where
  "riegelPredict t1 d1 d2 b = t1 * Math_pow (d2 / d1) b"

subsection \<open>Recency weight\<close>

text \<open>
  The host: the reading of \<^verbatim>\<open>Date.now()\<close> in milliseconds, and the time value of
  \<^verbatim>\<open>new Date(dateStr)\<close> in milliseconds, \<open>None\<close> for an invalid date (whose
  \<^verbatim>\<open>getTime()\<close> is \<open>NaN\<close>).
\<close>

record host =
  Date_now :: int
  Date_parse :: "string \<Rightarrow> int option"

definition getTime :: "host \<Rightarrow> string \<Rightarrow> jsnum" where
  "getTime h dateStr =
     (case Date_parse h dateStr of None \<Rightarrow> NaN | Some ms \<Rightarrow> Fin (of_int ms))"

text \<open>
  \<^verbatim>\<open>function decayWeight(dateStr, halfLifeDays = 21)\<close>; every call site leaves the
  second argument out, see \<open>decayWeight21\<close>.
\<close>

definition decayWeight :: "host \<Rightarrow> string \<Rightarrow> jsnum \<Rightarrow> jsnum" where
  "decayWeight h dateStr halfLifeDays =
     (let now = Fin (of_int (Date_now h));
          t = getTime h dateStr
      in if isNaN t then Fin 0
         else (let k = Math_pow (Fin 0.5) ((now - t) / (halfLifeDays * DAY))
               in clamp k (Fin 0) (Fin 1)))"

definition decayWeight21 :: "host \<Rightarrow> string \<Rightarrow> jsnum" where
  "decayWeight21 h dateStr = decayWeight h dateStr (Fin 21)"

subsection \<open>Fitness proxies\<close>

text \<open>
  \<^verbatim>\<open>workout = { reps, repDistanceM, repTimeStr, restSeconds, date }\<close> (the \<^verbatim>\<open>id\<close>
  that the user interface adds to each entry is never read by the core).
\<close>

record workout =
  reps :: jsnum
  repDistanceM :: jsnum
  repTimeStr :: string
  restSeconds :: jsnum
  date :: string

text \<open>The proxies of one workout; \<open>None\<close> is \<^verbatim>\<open>null\<close>.\<close>

record proxies =
  masProxy :: "jsnum option"
  tProxy :: "jsnum option"
  asrProxy :: "jsnum option"

definition proxiesFromWorkout :: "workout \<Rightarrow> proxies option" where
  "proxiesFromWorkout w =
     (let repSec = parseTimeToSeconds (repTimeStr w)
      in if \<not> isFinite repSec \<or> repSec \<le> Fin 0 then None
         else
           (let vRep = repDistanceM w / repSec;
                work = repSec;
                rest = orElse (restSeconds w) (Fin 0);
                wr = (if Fin 0 < work then rest / work else Fin 0);
                recAtten = Fin 1 / (Fin 1 + Fin 0.6 / (wr + Fin 0.05));
                isShort = (repDistanceM w \<le> Fin 600);
                isLong = (Fin 800 \<le> repDistanceM w)
            in Some \<lparr>
                 masProxy = (if isShort then Some (vRep * (Fin 0.86 + Fin 0.12 * recAtten))
                             else None),
                 tProxy = (if isLong
                           then Some (vRep * (Fin 0.74 + Fin 0.20 * (Fin 1 - Math_tanh wr)))
                           else None),
                 asrProxy = (if Fin 300 \<le> repDistanceM w \<and> repDistanceM w \<le> Fin 500
                             then Some vRep else None) \<rparr>))"

text \<open>
  \<^verbatim>\<open>function aggregateFitness(workouts)\<close>: the six accumulators of the loop, one loop
  iteration, and the fitness snapshot (the field \<open>thr\<close> is the source's \<^verbatim>\<open>t\<close>).
\<close>

record accum =
  masSum :: jsnum
  masW :: jsnum
  tSum :: jsnum
  tW :: jsnum
  asrSum :: jsnum
  asrW :: jsnum

record fitness =
  mas :: jsnum
  thr :: jsnum
  asr :: jsnum

text \<open>
  \<^verbatim>\<open>if (p.masProxy) { masSum += p.masProxy * wt; masW += wt; }\<close> on a pair (sum, weight):
  \<^verbatim>\<open>null\<close>, \<open>0\<close> and \<open>NaN\<close> are falsy.
\<close>

definition addProxy :: "jsnum option \<Rightarrow> jsnum \<Rightarrow> jsnum \<times> jsnum \<Rightarrow> jsnum \<times> jsnum" where
  "addProxy p wt acc =
     (case p of
        None \<Rightarrow> acc
      | Some x \<Rightarrow> if truthy x then (fst acc + x * wt, snd acc + wt) else acc)"

definition aggregateStep :: "host \<Rightarrow> accum \<Rightarrow> workout \<Rightarrow> accum" where
  "aggregateStep h s w =
     (case proxiesFromWorkout w of
        None \<Rightarrow> s
      | Some p \<Rightarrow>
          (let wt = decayWeight21 h (date w);
               (ms, mw) = addProxy (masProxy p) wt (masSum s, masW s);
               (ts, tw) = addProxy (tProxy p) wt (tSum s, tW s);
               (as, aw) = addProxy (asrProxy p) wt (asrSum s, asrW s)
           in \<lparr> masSum = ms, masW = mw, tSum = ts, tW = tw, asrSum = as, asrW = aw \<rparr>))"

definition aggregateFitness :: "host \<Rightarrow> workout list \<Rightarrow> fitness" where
  "aggregateFitness h workouts =
     (let s = foldl (aggregateStep h)
                \<lparr> masSum = Fin 0, masW = Fin 0, tSum = Fin 0, tW = Fin 0,
                  asrSum = Fin 0, asrW = Fin 0 \<rparr> workouts
      in \<lparr> mas = (if Fin 0 < masW s then masSum s / masW s else NaN),
           thr = (if Fin 0 < tW s then tSum s / tW s else NaN),
           asr = (if Fin 0 < asrW s then asrSum s / asrW s else NaN) \<rparr>)"

subsection \<open>Workout curve\<close>

text \<open>
  \<^verbatim>\<open>function workoutTimeForDistance(meters, fit, typeKey)\<close>. Its first statement
  destructures the weight pair and may throw; \<open>workoutCurve\<close> is the rest of the body,
  with \<^verbatim>\<open>wShort\<close> and \<^verbatim>\<open>wLong\<close> bound.
\<close>

definition workoutCurve :: "jsnum \<Rightarrow> fitness \<Rightarrow> jsnum \<Rightarrow> jsnum \<Rightarrow> jsnum" where
  "workoutCurve meters fit wShort wLong =
     (let masUse = (if isFinite (mas fit) then mas fit else Fin 5.5);
          tUse = (if isFinite (thr fit) then thr fit else Fin 4.2);
          asrUse = (if isFinite (asr fit) then asr fit else masUse);
          t1500 = Fin 1500 / (Fin 0.92 * masUse);
          t10k = Fin 10000 / (Fin 0.98 * tUse);
          bW = Math_log (t10k / t1500) / Math_log (Fin 10000 / Fin 1500);
          bAdj = clamp (bW * (Fin 0.65 + Fin 0.35 * wLong)) (Fin 1.03) (Fin 1.16);
          a = t1500 / Math_pow (Fin 1500) bAdj;
          tPred = a * Math_pow meters bAdj
      in if meters \<le> Fin 800
         then (let pure = meters / (Fin 0.90 * asrUse);
                   bias = Fin 0.35 + Fin 0.45 * wShort
               in Math_exp (bias * Math_log pure + (Fin 1 - bias) * Math_log tPred))
         else tPred)"

definition workoutTimeForDistance :: "jsnum \<Rightarrow> fitness \<Rightarrow> string \<Rightarrow> jserror + jsnum" where
  "workoutTimeForDistance meters fit typeKey =
     (case typeWeights typeKey of
        Inl e \<Rightarrow> Inl e
      | Inr (wShort, wLong) \<Rightarrow> Inr (workoutCurve meters fit wShort wLong))"

subsection \<open>Blend\<close>

text \<open>
  The confidence weighting of \<^verbatim>\<open>blendPredictions\<close>: its locals \<^verbatim>\<open>recentWt\<close>,
  \<^verbatim>\<open>conf\<close> and \<^verbatim>\<open>dataWt\<close>, as functions of the workout list.
\<close>

definition blend_recentWt :: "host \<Rightarrow> workout list \<Rightarrow> jsnum" where
  "blend_recentWt h workouts = foldl (\<lambda>s w. s + decayWeight21 h (date w)) (Fin 0) workouts"

definition blend_conf :: "host \<Rightarrow> workout list \<Rightarrow> jsnum" where
  "blend_conf h workouts =
     (let n = Fin (of_nat (length workouts))
      in clamp ((blend_recentWt h workouts / Math_max (Fin 1) n) * Fin 0.9) (Fin 0) (Fin 0.9))"

definition blend_dataWt :: "host \<Rightarrow> workout list \<Rightarrow> jsnum" where
  "blend_dataWt h workouts =
     clamp (Fin 0.25 + Fin 0.6 * blend_conf h workouts) (Fin 0.25) (Fin 0.85)"

text \<open>\<^verbatim>\<open>const ln = (x)=>Math.log(Math.max(1e-6,x));\<close>\<close>

definition blend_ln :: "jsnum \<Rightarrow> jsnum" where
  "blend_ln x = Math_log (Math_max (Fin (1 / 10 ^ 6)) x)"

record prediction =
  base :: jsnum
  wkt :: jsnum
  tBlend :: jsnum
  fitness :: fitness
  dataWt :: jsnum

definition blendPredictions ::
  "host \<Rightarrow> jsnum \<Rightarrow> jsnum \<Rightarrow> jsnum \<Rightarrow> string \<Rightarrow> workout list \<Rightarrow> jserror + prediction" where
  "blendPredictions h prTime prDist meters typeKey workouts =
     (let b = riegelExponent typeKey;
          base' = riegelPredict prTime prDist meters b;
          fit = aggregateFitness h workouts
      in case workoutTimeForDistance meters fit typeKey of
           Inl e \<Rightarrow> Inl e
         | Inr wkt' \<Rightarrow>
             (let dataWt' = blend_dataWt h workouts;
                  tBlend' = Math_exp (dataWt' * blend_ln wkt'
                                      + (Fin 1 - dataWt') * blend_ln base')
              in Inr \<lparr> base = base', wkt = wkt', tBlend = tBlend', fitness = fit,
                       dataWt = dataWt' \<rparr>))"

subsection \<open>Real-valued forms used in the proofs\<close>

text \<open>
  The per-workout average weight \<^verbatim>\<open>recentWt / Math.max(1, n)\<close> and the two clamps
  that turn it into \<^verbatim>\<open>dataWt\<close>, on reals.
\<close>

definition avgR :: "real \<Rightarrow> nat \<Rightarrow> real" where
  "avgR S n = S / max 1 (real n)"

definition dataWtR :: "real \<Rightarrow> real" where
  "dataWtR a =
     min (85/100) (max (25/100) (25/100 + 6/10 * min (9/10) (max 0 (a * (9/10)))))"

text \<open>
  Shapes of the intermediate values on well-formed workouts: a (sum, weight) pair of
  the aggregation loop, a component of the fitness snapshot, a non-negative number,
  and a workout whose rep distance and rest are non-negative numbers.
\<close>

fun goodPair :: "jsnum \<times> jsnum \<Rightarrow> bool" where
  "goodPair (Fin s, Fin w) = ((w = 0 \<and> s = 0) \<or> (0 < w \<and> 0 < s))"
| "goodPair p = False"

fun goodSpeed :: "jsnum \<Rightarrow> bool" where
  "goodSpeed NaN = True"
| "goodSpeed (Fin v) = (0 < v)"
| "goodSpeed x = False"

fun nonneg :: "jsnum \<Rightarrow> bool" where
  "nonneg (Fin a) = (0 \<le> a)"
| "nonneg x = False"

definition okWorkout :: "workout \<Rightarrow> bool" where
  "okWorkout w = (nonneg (repDistanceM w) \<and> nonneg (restSeconds w))"

definition goodAccum :: "accum \<Rightarrow> bool" where
  "goodAccum s =
     (goodPair (masSum s, masW s) \<and> goodPair (tSum s, tW s) \<and> goodPair (asrSum s, asrW s))"

subsection \<open>Sample inputs\<close>

text \<open>
  A host whose clock stands at 2026-11-02T00:00:00Z and that parses three ISO dates:
  that day, the next day, and 21 days earlier.
\<close>

definition sampleHost :: host where
  "sampleHost =
     \<lparr> Date_now = 1793577600000,
       Date_parse = (\<lambda>s. if s = ''2026-11-02'' then Some 1793577600000
                          else if s = ''2026-11-03'' then Some 1793664000000
                          else if s = ''2026-10-12'' then Some 1791763200000
                          else None) \<rparr>"

definition sampleWorkout :: "string \<Rightarrow> string \<Rightarrow> workout" where
  "sampleWorkout timeStr dateStr =
     \<lparr> reps = Fin 4, repDistanceM = Fin 400, repTimeStr = timeStr, restSeconds = Fin 60,
       date = dateStr \<rparr>"

section \<open>Properties\<close>

subsection \<open>Arithmetic on finite numbers\<close>

lemma minus_Fin [simp]: "Fin a - Fin b = Fin (a - b)"
  by (simp add: minus_jsnum_def)

lemma DAY_Fin: "DAY = Fin 86400000"
  by (simp add: DAY_def)

lemma Math_pow_pos: "0 < a \<Longrightarrow> Math_pow (Fin a) (Fin e) = Fin (a powr e)"
  by simp

lemma clamp_Fin: "clamp (Fin x) (Fin a) (Fin b) = Fin (min b (max a x))"
  by (simp add: clamp_def)

lemma max_one_nonzero: "max 1 (real n) \<noteq> 0"
  by (simp add: max_def)

subsection \<open>Recency weight\<close>

lemma decayWeight_None: "Date_parse h s = None \<Longrightarrow> decayWeight h s hl = Fin 0"
  by (simp add: decayWeight_def getTime_def)

lemma decayWeight_Some:
  assumes "Date_parse h s = Some ms" and "0 < hl"
  shows "decayWeight h s (Fin hl) =
           Fin (min 1 (max 0 ((1/2) powr
                  ((of_int (Date_now h) - of_int ms) / (hl * 86400000)))))"
  using assms
  by (simp add: decayWeight_def getTime_def DAY_Fin clamp_Fin Math_pow_pos Let_def)

lemma decayWeight_bounds:
  assumes "0 < hl"
  shows "\<exists>r. decayWeight h s (Fin hl) = Fin r \<and> 0 \<le> r \<and> r \<le> 1"
proof (cases "Date_parse h s")
  case None
  then show ?thesis by (simp add: decayWeight_None)
next
  case (Some ms)
  show ?thesis by (simp add: decayWeight_Some [OF Some assms])
qed

lemma decayWeight21_Fin: "\<exists>r. decayWeight21 h s = Fin r \<and> 0 \<le> r \<and> r \<le> 1"
  using decayWeight_bounds [of 21 h s] by (simp add: decayWeight21_def)


text \<open>
  C7. For every date string and every reading of the clock, \<open>decayWeight\<close> (with a
  positive half-life, 21 by default) returns a number in \<open>[0, 1]\<close>; it returns exactly 0
  for a date that does not parse, and exactly 1 for a date at or after the clock
  reading.
\<close>

theorem decayWeight_range:
  assumes "0 < hl"
  shows "(\<exists>r. decayWeight h s (Fin hl) = Fin r \<and> 0 \<le> r \<and> r \<le> 1)
       \<and> (Date_parse h s = None \<longrightarrow> decayWeight h s (Fin hl) = Fin 0)
       \<and> (\<forall>ms. Date_parse h s = Some ms \<and> Date_now h \<le> ms
              \<longrightarrow> decayWeight h s (Fin hl) = Fin 1)"
proof (cases "Date_parse h s")
  case None
  then show ?thesis by (simp add: decayWeight_None)
next
  case (Some ms)
  let ?e = "(of_int (Date_now h) - of_int ms) / (hl * 86400000) :: real"
  have eq: "decayWeight h s (Fin hl) = Fin (min 1 (max 0 ((1/2) powr ?e)))"
    by (rule decayWeight_Some [OF Some assms])
  have late: "min 1 (max 0 ((1/2) powr ?e)) = 1" if "Date_now h \<le> ms"
  proof -
    from that have "(of_int (Date_now h) :: real) \<le> of_int ms" by simp
    with assms have "?e \<le> 0" by (simp add: divide_le_0_iff)
    then have "(1::real) \<le> (1/2) powr ?e"
      using powr_mono' [of ?e 0 "1/2"] by simp
    then show ?thesis by simp
  qed
  show ?thesis using Some eq late by auto
qed

theorem decayWeight_range_witness:
  "(0::real) < 21
   \<and> (\<exists>r. decayWeight sampleHost ''2026-11-03'' (Fin 21) = Fin r \<and> 0 \<le> r \<and> r \<le> 1)
   \<and> Date_parse sampleHost ''2026-11-03'' = Some 1793664000000
   \<and> Date_now sampleHost \<le> 1793664000000
   \<and> decayWeight sampleHost ''2026-11-03'' (Fin 21) = Fin 1
   \<and> Date_parse sampleHost ''yesterday'' = None
   \<and> decayWeight sampleHost ''yesterday'' (Fin 21) = Fin 0"
proof -
  have pos: "(0::real) < 21" by simp
  have p1: "Date_parse sampleHost ''2026-11-03'' = Some 1793664000000"
    by (simp add: sampleHost_def)
  have p2: "Date_now sampleHost \<le> 1793664000000"
    by (simp add: sampleHost_def)
  have p3: "Date_parse sampleHost ''yesterday'' = None"
    by (simp add: sampleHost_def)
  from decayWeight_range [OF pos, of sampleHost "''2026-11-03''"]
       decayWeight_range [OF pos, of sampleHost "''yesterday''"] p1 p2 p3
  show ?thesis by simp
qed

subsection \<open>Confidence weighting\<close>

lemma blend_recentWt_Nil: "blend_recentWt h [] = Fin 0"
  by (simp add: blend_recentWt_def)

lemma blend_recentWt_snoc:
  "blend_recentWt h (ws @ [w]) = blend_recentWt h ws + decayWeight21 h (date w)"
  by (simp add: blend_recentWt_def)

lemma blend_recentWt_Fin:
  "\<exists>S. blend_recentWt h ws = Fin S \<and> 0 \<le> S \<and> S \<le> real (length ws)"
proof (induction ws rule: rev_induct)
  case Nil
  show ?case by (simp add: blend_recentWt_Nil)
next
  case (snoc w ws)
  then obtain S where S: "blend_recentWt h ws = Fin S" "0 \<le> S" "S \<le> real (length ws)"
    by blast
  obtain r where r: "decayWeight21 h (date w) = Fin r" "0 \<le> r" "r \<le> 1"
    using decayWeight21_Fin by blast
  have "blend_recentWt h (ws @ [w]) = Fin (S + r)"
    by (simp add: blend_recentWt_snoc S r)
  with S r show ?case by simp
qed

lemma blend_conf_Fin:
  "blend_recentWt h ws = Fin S \<Longrightarrow>
   blend_conf h ws = Fin (min (9/10) (max 0 (avgR S (length ws) * (9/10))))"
  by (simp add: blend_conf_def clamp_Fin avgR_def Let_def max_one_nonzero)

lemma blend_dataWt_Fin:
  "blend_recentWt h ws = Fin S \<Longrightarrow> blend_dataWt h ws = Fin (dataWtR (avgR S (length ws)))"
  by (simp add: blend_dataWt_def blend_conf_Fin clamp_Fin dataWtR_def)

lemma dataWtR_unit: "0 \<le> a \<Longrightarrow> a \<le> 1 \<Longrightarrow> dataWtR a = 25/100 + 54/100 * a"
  by (simp add: dataWtR_def min_def max_def)

lemma avgR_unit: "0 \<le> S \<Longrightarrow> S \<le> real n \<Longrightarrow> 0 \<le> avgR S n \<and> avgR S n \<le> 1"
  by (cases n) (simp_all add: avgR_def divide_le_eq)



lemma blend_dataWt_range:
  "\<exists>x. blend_dataWt h ws = Fin x \<and> 25/100 \<le> x \<and> x \<le> 79/100"
proof -
  obtain S where S: "blend_recentWt h ws = Fin S" "0 \<le> S" "S \<le> real (length ws)"
    using blend_recentWt_Fin by blast
  from avgR_unit [OF S(2,3)] show ?thesis
    by (simp add: blend_dataWt_Fin [OF S(1)] dataWtR_unit)
qed




lemma blend_dataWt_dates:
  assumes eq: "map date ws = map date ws'"
  shows "blend_dataWt h ws = blend_dataWt h ws'"
proof -
  have len: "length ws = length ws'" using eq by (metis length_map)
  have r: "blend_recentWt h xs
             = foldl (\<lambda>s d. s + decayWeight21 h d) (Fin 0) (map date xs)" for xs
    by (simp add: blend_recentWt_def foldl_map)
  have "blend_recentWt h ws = blend_recentWt h ws'" by (simp add: r eq)
  then show ?thesis by (simp add: blend_dataWt_def blend_conf_def len)
qed

subsection \<open>When the blend returns\<close>

lemma typeWeights_returns:
  "typeKey \<notin> set objectPrototypeKeys \<Longrightarrow> \<exists>p. typeWeights typeKey = Inr p"
  by (simp add: typeWeights_def getProperty_def split: option.splits)


lemma workoutTimeForDistance_returns:
  "typeKey \<notin> set objectPrototypeKeys
   \<Longrightarrow> \<exists>t. workoutTimeForDistance meters fit typeKey = Inr t"
  using typeWeights_returns [of typeKey]
  by (auto simp: workoutTimeForDistance_def split: prod.splits)

lemma blendPredictions_returns:
  assumes "typeKey \<notin> set objectPrototypeKeys"
  shows "\<exists>r. blendPredictions h prTime prDist meters typeKey ws = Inr r
             \<and> dataWt r = blend_dataWt h ws"
proof -
  obtain t where "workoutTimeForDistance meters (aggregateFitness h ws) typeKey = Inr t"
    using workoutTimeForDistance_returns [OF assms] by blast
  then show ?thesis by (simp add: blendPredictions_def Let_def)
qed

lemma sample_key: "''1500/miler'' \<notin> set objectPrototypeKeys"
  by (simp add: objectPrototypeKeys_def)

text \<open>
  C4. With an empty workout list the confidence is 0 and \<open>dataWt\<close> is exactly 0.25,
  whatever the PR, the target distance and the athlete type; \<open>blendPredictions\<close>
  returns that \<open>dataWt\<close> for every type key on which it returns at all (every key that
  is not a property name inherited from \<^verbatim>\<open>Object.prototype\<close>).
\<close>

theorem empty_workouts_dataWt:
  "blend_conf h [] = Fin 0
   \<and> blend_dataWt h [] = Fin 0.25
   \<and> (typeKey \<notin> set objectPrototypeKeys \<longrightarrow>
        (\<exists>r. blendPredictions h prTime prDist meters typeKey [] = Inr r
              \<and> dataWt r = Fin 0.25))"
proof -
  have c: "blend_conf h [] = Fin 0"
    by (simp add: blend_conf_Fin [OF blend_recentWt_Nil] avgR_def)
  have d: "blend_dataWt h [] = Fin 0.25"
    by (simp add: blend_dataWt_Fin [OF blend_recentWt_Nil] avgR_def dataWtR_def)
  show ?thesis
    using c d blendPredictions_returns [of typeKey h prTime prDist meters "[]"] by auto
qed

theorem empty_workouts_dataWt_witness:
  "''1500/miler'' \<notin> set objectPrototypeKeys
   \<and> (\<exists>r. blendPredictions sampleHost (Fin 240) (Fin 1500) (Fin 1609) ''1500/miler'' []
              = Inr r
           \<and> dataWt r = Fin 0.25)"
  using empty_workouts_dataWt [of sampleHost "''1500/miler''" "Fin 240" "Fin 1500" "Fin 1609"]
        sample_key
  by simp



text \<open>
  C8. Identity of the Riegel baseline at the PR distance: for every time \<open>t > 0\<close>, every
  distance \<open>d > 0\<close> and every (finite) exponent \<open>b\<close>, \<open>riegelPredict t d d b\<close> is exactly
  \<open>t\<close>.
\<close>

theorem riegelPredict_identity:
  "0 < t \<Longrightarrow> 0 < d \<Longrightarrow> riegelPredict (Fin t) (Fin d) (Fin d) (Fin b) = Fin t"
  by (simp add: riegelPredict_def)

theorem riegelPredict_identity_witness:
  "(0::real) < 240 \<and> (0::real) < 1500 \<and>
   riegelPredict (Fin 240) (Fin 1500) (Fin 1500) (Fin 1.08) = Fin 240"
  using riegelPredict_identity [of 240 1500 "1.08"] by simp

subsection \<open>Fitness proxies\<close>

lemma orElse_nonneg: "0 \<le> q \<Longrightarrow> orElse (Fin q) (Fin 0) = Fin q"
  by (simp add: orElse_def)


lemma proxiesFromWorkout_Some:
  assumes "parseTimeToSeconds (repTimeStr w) = Fin r" and "0 < r"
  shows "\<exists>p. proxiesFromWorkout w = Some p
           \<and> (masProxy p \<noteq> None \<longleftrightarrow> repDistanceM w \<le> Fin 600)
           \<and> (tProxy p \<noteq> None \<longleftrightarrow> Fin 800 \<le> repDistanceM w)
           \<and> (asrProxy p \<noteq> None \<longleftrightarrow> Fin 300 \<le> repDistanceM w \<and> repDistanceM w \<le> Fin 500)"
  using assms by (simp add: proxiesFromWorkout_def Let_def)

lemma proxiesFromWorkout_values:
  assumes t: "parseTimeToSeconds (repTimeStr w) = Fin r" "0 < r"
      and d: "repDistanceM w = Fin d"
      and q: "restSeconds w = Fin q" "0 \<le> q"
  shows "proxiesFromWorkout w = Some
           \<lparr> masProxy = (if d \<le> 600
                         then Some (Fin (d / r * (86/100 + 12/100 * (1 / (1 + (6/10) / (q / r + 5/100))))))
                         else None),
             tProxy = (if 800 \<le> d
                       then Some (Fin (d / r * (74/100 + 20/100 * (1 - tanh (q / r)))))
                       else None),
             asrProxy = (if 300 \<le> d \<and> d \<le> 500 then Some (Fin (d / r)) else None) \<rparr>"
proof -
  have qr: "0 \<le> q / r" using t(2) q(2) by simp
  then have n1: "q / r + 5/100 \<noteq> 0" by linarith
  have "0 < (6/10) / (q / r + 5/100)" using qr by (simp add: add_nonneg_pos)
  then have n2: "1 + (6/10) / (q / r + 5/100) \<noteq> 0" by linarith
  have r0: "r \<noteq> 0" using t(2) by simp
  show ?thesis
    using n1 n2 r0 t(2)
    by (simp add: proxiesFromWorkout_def Let_def t(1) d q(1) orElse_nonneg [OF q(2)])
qed

lemma recAtten_pos:
  fixes x :: real
  assumes "0 \<le> x"
  shows "0 < 1 / (1 + (6/10) / (x + 5/100))"
proof -
  have a: "0 < x + 5/100" using assms by linarith
  have b: "(0::real) < 6/10" by simp
  have "0 < (6/10) / (x + 5/100)" by (rule divide_pos_pos [OF b a])
  then have "0 < 1 + (6/10) / (x + 5/100)" by linarith
  then show ?thesis by (rule divide_pos_pos [OF zero_less_one])
qed

lemma proxiesFromWorkout_positive:
  assumes t: "parseTimeToSeconds (repTimeStr w) = Fin r" "0 < r"
      and d: "repDistanceM w = Fin d" "0 \<le> d"
      and q: "restSeconds w = Fin q" "0 \<le> q"
  shows "\<exists>p. proxiesFromWorkout w = Some p
           \<and> (masProxy p = None \<or> (\<exists>v. masProxy p = Some (Fin v) \<and> 0 \<le> v \<and> (0 < d \<longrightarrow> 0 < v)))
           \<and> (tProxy p = None \<or> (\<exists>v. tProxy p = Some (Fin v) \<and> 0 \<le> v \<and> (0 < d \<longrightarrow> 0 < v)))
           \<and> (asrProxy p = None \<or> (\<exists>v. asrProxy p = Some (Fin v) \<and> 0 \<le> v \<and> (0 < d \<longrightarrow> 0 < v)))"
proof -
  have qr: "0 \<le> q / r" using t(2) q(2) by simp
  have "0 < 12/100 * (1 / (1 + (6/10) / (q / r + 5/100)))"
    using recAtten_pos [OF qr] by (intro mult_pos_pos) simp_all
  then have cm: "0 < 86/100 + 12/100 * (1 / (1 + (6/10) / (q / r + 5/100)))"
    by (intro add_pos_pos) simp_all
  have "tanh (q / r) < 1" by (rule tanh_real_lt_1)
  then have "0 < 20/100 * (1 - tanh (q / r))" by (intro mult_pos_pos) simp_all
  then have ct: "0 < 74/100 + 20/100 * (1 - tanh (q / r))"
    by (intro add_pos_pos) simp_all
  have dr: "0 \<le> d / r" using t(2) d(2) by simp
  have drp: "0 < d / r" if "0 < d" using that t(2) by simp
  have m: "0 \<le> d / r * (86/100 + 12/100 * (1 / (1 + (6/10) / (q / r + 5/100))))"
    using dr cm by (intro mult_nonneg_nonneg) simp_all
  have mp: "0 < d / r * (86/100 + 12/100 * (1 / (1 + (6/10) / (q / r + 5/100))))" if "0 < d"
    using drp [OF that] cm by (rule mult_pos_pos)
  have th: "0 \<le> d / r * (74/100 + 20/100 * (1 - tanh (q / r)))"
    using dr ct by (intro mult_nonneg_nonneg) simp_all
  have thp: "0 < d / r * (74/100 + 20/100 * (1 - tanh (q / r)))" if "0 < d"
    using drp [OF that] ct by (rule mult_pos_pos)
  show ?thesis
    unfolding proxiesFromWorkout_values [OF t d(1) q]
    using m mp th thp dr drp by simp
qed


lemma parse_65: "parseTimeToSeconds ''65.0'' = Fin 65"
  by (simp add: parseTimeToSeconds_def parseFloat_def takeSign_def trimStart_def trim_def
      isWhite_def isDigit_def digitsVal_def digitVal_def exponentPart_def pow10_def Let_def)

lemma parse_250: "parseTimeToSeconds ''2:50'' = Fin 170"
  by (simp add: parseTimeToSeconds_def parseFloat_def parseInt10_def takeSign_def trimStart_def
      trim_def isWhite_def isDigit_def digitsVal_def digitVal_def exponentPart_def pow10_def
      orElse_def Let_def)





lemma proxiesFromWorkout_reps: "proxiesFromWorkout (w\<lparr>reps := n\<rparr>) = proxiesFromWorkout w"
  by (simp add: proxiesFromWorkout_def Let_def)

lemma aggregateStep_reps: "aggregateStep h s (w\<lparr>reps := n\<rparr>) = aggregateStep h s w"
  by (simp add: aggregateStep_def proxiesFromWorkout_reps Let_def split: option.split)

lemma aggregate_foldl_reps:
  "list_all2 (\<lambda>w w'. \<exists>n. w' = w\<lparr>reps := n\<rparr>) ws ws'
   \<Longrightarrow> foldl (aggregateStep h) s ws = foldl (aggregateStep h) s ws'"
  by (induction ws ws' arbitrary: s rule: list_all2_induct)
     (auto simp: aggregateStep_reps)

lemma dates_reps:
  "list_all2 (\<lambda>w w'. \<exists>n. w' = w\<lparr>reps := n\<rparr>) ws ws' \<Longrightarrow> map date ws = map date ws'"
  by (induction ws ws' rule: list_all2_induct) auto

text \<open>
  C9. Noninterference of the rep count: two workout lists that differ only in the
  \<open>reps\<close> fields of their entries give the same outcome of \<open>blendPredictions\<close> (the
  same record, \<open>base\<close>, \<open>wkt\<close>, \<open>tBlend\<close>, \<open>fitness\<close> and \<open>dataWt\<close>, or the same
  failure), for every host, PR, target distance and type key.
\<close>

theorem reps_noninterference:
  assumes "list_all2 (\<lambda>w w'. \<exists>n. w' = w\<lparr>reps := n\<rparr>) ws ws'"
  shows "blendPredictions h prTime prDist meters typeKey ws
         = blendPredictions h prTime prDist meters typeKey ws'"
proof -
  have f: "aggregateFitness h ws = aggregateFitness h ws'"
    by (simp add: aggregateFitness_def aggregate_foldl_reps [OF assms])
  have d: "blend_dataWt h ws = blend_dataWt h ws'"
    by (rule blend_dataWt_dates [OF dates_reps [OF assms]])
  show ?thesis by (simp add: blendPredictions_def Let_def f d split: sum.split)
qed

theorem reps_noninterference_witness:
  "list_all2 (\<lambda>w w'. \<exists>n. w' = w\<lparr>reps := n\<rparr>)
     [sampleWorkout ''65.0'' ''2026-11-02'']
     [(sampleWorkout ''65.0'' ''2026-11-02'')\<lparr>reps := Fin 12\<rparr>]
   \<and> blendPredictions sampleHost (Fin 240) (Fin 1500) (Fin 1609) ''1500/miler''
         [sampleWorkout ''65.0'' ''2026-11-02'']
       = blendPredictions sampleHost (Fin 240) (Fin 1500) (Fin 1609) ''1500/miler''
           [(sampleWorkout ''65.0'' ''2026-11-02'')\<lparr>reps := Fin 12\<rparr>]"
proof -
  have l: "list_all2 (\<lambda>w w'. \<exists>n. w' = w\<lparr>reps := n\<rparr>)
             [sampleWorkout ''65.0'' ''2026-11-02'']
             [(sampleWorkout ''65.0'' ''2026-11-02'')\<lparr>reps := Fin 12\<rparr>]"
    by auto
  from reps_noninterference [OF l] l show ?thesis by blast
qed

text \<open>
  C6. For a workout with a parseable, strictly positive rep time and a positive rep
  distance \<open>d\<close>, \<open>proxiesFromWorkout\<close> yields a MAS proxy exactly when \<open>d \<le> 600\<close>, a
  threshold proxy exactly when \<open>d \<ge> 800\<close>, and an ASR proxy exactly when
  \<open>300 \<le> d \<le> 500\<close>. So a 400 m rep yields MAS and ASR but no threshold proxy, and a
  1000 m rep yields a threshold proxy only. When the rest is a non-negative number,
  every proxy that is yielded is a positive number, hence truthy, and is added to the
  sums of \<open>aggregateFitness\<close>.
\<close>

theorem proxies_bands:
  assumes "parseTimeToSeconds (repTimeStr w) = Fin r" and "0 < r"
      and "repDistanceM w = Fin d" and "0 < d"
  shows "\<exists>p. proxiesFromWorkout w = Some p
           \<and> (masProxy p \<noteq> None \<longleftrightarrow> d \<le> 600)
           \<and> (tProxy p \<noteq> None \<longleftrightarrow> 800 \<le> d)
           \<and> (asrProxy p \<noteq> None \<longleftrightarrow> 300 \<le> d \<and> d \<le> 500)
           \<and> (d = 400 \<longrightarrow> masProxy p \<noteq> None \<and> asrProxy p \<noteq> None \<and> tProxy p = None)
           \<and> (d = 1000 \<longrightarrow> tProxy p \<noteq> None \<and> masProxy p = None \<and> asrProxy p = None)
           \<and> (\<forall>q x. restSeconds w = Fin q \<and> 0 \<le> q
                    \<and> (masProxy p = Some x \<or> tProxy p = Some x \<or> asrProxy p = Some x)
                  \<longrightarrow> truthy x)"
proof -
  obtain p where p: "proxiesFromWorkout w = Some p"
      "masProxy p \<noteq> None \<longleftrightarrow> repDistanceM w \<le> Fin 600"
      "tProxy p \<noteq> None \<longleftrightarrow> Fin 800 \<le> repDistanceM w"
      "asrProxy p \<noteq> None \<longleftrightarrow> Fin 300 \<le> repDistanceM w \<and> repDistanceM w \<le> Fin 500"
    using proxiesFromWorkout_Some [OF assms(1,2)] by blast
  have bands: "(masProxy p \<noteq> None \<longleftrightarrow> d \<le> 600)" "(tProxy p \<noteq> None \<longleftrightarrow> 800 \<le> d)"
      "(asrProxy p \<noteq> None \<longleftrightarrow> 300 \<le> d \<and> d \<le> 500)"
    using p(2,3,4) by (simp_all add: assms(3))
  have tr: "truthy x"
    if q: "restSeconds w = Fin q" "0 \<le> q"
    and x: "masProxy p = Some x \<or> tProxy p = Some x \<or> asrProxy p = Some x" for q x
  proof -
    have d0: "0 \<le> d" using assms(4) by simp
    from proxiesFromWorkout_positive [OF assms(1,2,3) d0 q] p(1) assms(4)
    have "(masProxy p = None \<or> (\<exists>v. masProxy p = Some (Fin v) \<and> 0 < v))
        \<and> (tProxy p = None \<or> (\<exists>v. tProxy p = Some (Fin v) \<and> 0 < v))
        \<and> (asrProxy p = None \<or> (\<exists>v. asrProxy p = Some (Fin v) \<and> 0 < v))"
      by auto
    with x show ?thesis by auto
  qed
  from p(1) bands tr show ?thesis by auto
qed

theorem proxies_bands_witness:
  "parseTimeToSeconds (repTimeStr (sampleWorkout ''65.0'' ''2026-11-02'')) = Fin 65
   \<and> (0::real) < 65
   \<and> repDistanceM (sampleWorkout ''65.0'' ''2026-11-02'') = Fin 400
   \<and> (0::real) < 400
   \<and> (\<exists>p. proxiesFromWorkout (sampleWorkout ''65.0'' ''2026-11-02'') = Some p
          \<and> masProxy p \<noteq> None \<and> asrProxy p \<noteq> None \<and> tProxy p = None)"
proof -
  have a: "parseTimeToSeconds (repTimeStr (sampleWorkout ''65.0'' ''2026-11-02'')) = Fin 65"
    by (simp add: sampleWorkout_def parse_65)
  have b: "repDistanceM (sampleWorkout ''65.0'' ''2026-11-02'') = Fin 400"
    by (simp add: sampleWorkout_def)
  from proxies_bands [OF a _ b] a b show ?thesis by auto
qed

subsection \<open>Time parsing\<close>





















subsection \<open>Aggregation on well-formed workouts\<close>

lemma nonnegE: "nonneg x \<Longrightarrow> \<exists>a. x = Fin a \<and> 0 \<le> a"
  by (cases x) simp_all

lemma goodPairE:
  "goodPair (a, b) \<Longrightarrow> \<exists>s w. a = Fin s \<and> b = Fin w \<and> ((w = 0 \<and> s = 0) \<or> (0 < w \<and> 0 < s))"
  by (cases a; cases b) simp_all

lemma addProxy_good:
  assumes g: "goodPair acc" and u: "0 \<le> u"
      and p: "p = None \<or> (\<exists>v. p = Some (Fin v) \<and> 0 \<le> v)"
  shows "goodPair (addProxy p (Fin u) acc)"
proof -
  obtain a b where acc: "acc = (a, b)" by (cases acc)
  obtain s w where sw: "a = Fin s" "b = Fin w" "(w = 0 \<and> s = 0) \<or> (0 < w \<and> 0 < s)"
    using goodPairE g acc by blast
  show ?thesis
  proof (cases p)
    case None
    then show ?thesis using g by (simp add: addProxy_def)
  next
    case (Some x)
    then obtain v where v: "x = Fin v" "0 \<le> v" using p by auto
    show ?thesis
    proof (cases "v = 0")
      case True
      then show ?thesis using g by (simp add: addProxy_def Some v)
    next
      case False
      then have vp: "0 < v" using v(2) by simp
      have "0 \<le> v * u" using v(2) u by simp
      moreover have "0 < v * u" if "0 < u" using vp that by simp
      ultimately have "(w + u = 0 \<and> s + v * u = 0) \<or> (0 < w + u \<and> 0 < s + v * u)"
        using sw(3) u by (cases "u = 0") (auto simp: add_pos_nonneg add_nonneg_pos)
      then show ?thesis using False by (simp add: addProxy_def Some v acc sw)
    qed
  qed
qed

lemma proxiesFromWorkout_SomeD:
  "proxiesFromWorkout w = Some p \<Longrightarrow> \<exists>r. parseTimeToSeconds (repTimeStr w) = Fin r \<and> 0 < r"
  by (cases "parseTimeToSeconds (repTimeStr w)")
     (auto simp: proxiesFromWorkout_def Let_def split: if_splits)

lemma aggregateStep_good:
  assumes ok: "okWorkout w" and g: "goodAccum s"
  shows "goodAccum (aggregateStep h s w)"
proof (cases "proxiesFromWorkout w")
  case None
  then show ?thesis using g by (simp add: aggregateStep_def)
next
  case (Some p)
  obtain r where r: "parseTimeToSeconds (repTimeStr w) = Fin r" "0 < r"
    using proxiesFromWorkout_SomeD [OF Some] by blast
  obtain d where d: "repDistanceM w = Fin d" "0 \<le> d"
    using ok nonnegE by (auto simp: okWorkout_def)
  obtain q where q: "restSeconds w = Fin q" "0 \<le> q"
    using ok nonnegE by (auto simp: okWorkout_def)
  from proxiesFromWorkout_positive [OF r d q] Some
  have pm: "masProxy p = None \<or> (\<exists>v. masProxy p = Some (Fin v) \<and> 0 \<le> v)"
   and pt: "tProxy p = None \<or> (\<exists>v. tProxy p = Some (Fin v) \<and> 0 \<le> v)"
   and pa: "asrProxy p = None \<or> (\<exists>v. asrProxy p = Some (Fin v) \<and> 0 \<le> v)"
    by auto
  obtain u where u: "decayWeight21 h (date w) = Fin u" "0 \<le> u"
    using decayWeight21_Fin by blast
  have gm: "goodPair (addProxy (masProxy p) (Fin u) (masSum s, masW s))"
    by (rule addProxy_good [OF _ u(2) pm]) (use g in \<open>simp add: goodAccum_def\<close>)
  have gt: "goodPair (addProxy (tProxy p) (Fin u) (tSum s, tW s))"
    by (rule addProxy_good [OF _ u(2) pt]) (use g in \<open>simp add: goodAccum_def\<close>)
  have ga: "goodPair (addProxy (asrProxy p) (Fin u) (asrSum s, asrW s))"
    by (rule addProxy_good [OF _ u(2) pa]) (use g in \<open>simp add: goodAccum_def\<close>)
  show ?thesis
    using gm gt ga
    by (auto simp: aggregateStep_def Some u(1) Let_def goodAccum_def split: prod.splits)
qed

lemma aggregate_foldl_good:
  "(\<forall>w\<in>set ws. okWorkout w) \<Longrightarrow> goodAccum s \<Longrightarrow> goodAccum (foldl (aggregateStep h) s ws)"
  by (induction ws arbitrary: s) (simp_all add: aggregateStep_good)

lemma goodPair_speed: "goodPair (a, b) \<Longrightarrow> goodSpeed (if Fin 0 < b then a / b else NaN)"
  using goodPairE [of a b] by auto

lemma aggregateFitness_good:
  assumes "\<forall>w\<in>set ws. okWorkout w"
  shows "goodSpeed (mas (aggregateFitness h ws)) \<and> goodSpeed (thr (aggregateFitness h ws))
         \<and> goodSpeed (asr (aggregateFitness h ws))"
proof -
  let ?s = "foldl (aggregateStep h)
              \<lparr> masSum = Fin 0, masW = Fin 0, tSum = Fin 0, tW = Fin 0,
                asrSum = Fin 0, asrW = Fin 0 \<rparr> ws"
  have "goodAccum ?s"
    by (rule aggregate_foldl_good [OF assms]) (simp add: goodAccum_def)
  then show ?thesis
    by (simp add: aggregateFitness_def Let_def goodAccum_def goodPair_speed)
qed

subsection \<open>Workout curve and blend on positive inputs\<close>

lemma goodSpeed_default:
  "goodSpeed x \<Longrightarrow> 0 < d \<Longrightarrow> \<exists>v. (if isFinite x then x else Fin d) = Fin v \<and> 0 < v"
  by (cases x) simp_all

lemma divide_Fin_pos: "0 < b \<Longrightarrow> Fin a / Fin b = Fin (a / b)"
  by simp

lemma Math_log_pos: "0 < a \<Longrightarrow> Math_log (Fin a) = Fin (ln a)"
  by simp

lemma workoutCurve_positive:
  assumes gm: "goodSpeed (mas fit)" and gt: "goodSpeed (thr fit)" and ga: "goodSpeed (asr fit)"
      and m: "0 < m"
  shows "\<exists>t. workoutCurve (Fin m) fit (Fin a) (Fin b) = Fin t \<and> 0 < t"
proof -
  obtain mu where mu: "(if isFinite (mas fit) then mas fit else Fin 5.5) = Fin mu" "0 < mu"
    using goodSpeed_default [OF gm, of "5.5"] by auto
  obtain tu where tu: "(if isFinite (thr fit) then thr fit else Fin 4.2) = Fin tu" "0 < tu"
    using goodSpeed_default [OF gt, of "4.2"] by auto
  obtain au where au: "(if isFinite (asr fit) then asr fit else Fin mu) = Fin au" "0 < au"
    using goodSpeed_default [OF ga mu(2)] by auto
  define x1 where "x1 = 1500 / (0.92 * mu)"
  have x1p: "0 < x1" unfolding x1_def using mu(2) by simp
  have x1: "Fin 1500 / (Fin 0.92 * Fin mu) = Fin x1"
    unfolding x1_def using mu(2) by simp
  define x2 where "x2 = 10000 / (0.98 * tu)"
  have x2p: "0 < x2" unfolding x2_def using tu(2) by simp
  have x2: "Fin 10000 / (Fin 0.98 * Fin tu) = Fin x2"
    unfolding x2_def using tu(2) by simp
  define bw where "bw = ln (x2 / x1) / ln (10000 / 1500)"
  have bw: "Math_log (Fin x2 / Fin x1) / Math_log (Fin 10000 / Fin 1500) = Fin bw"
    unfolding bw_def using x1p x2p by (simp add: divide_less_0_iff)
  define ba where "ba = min 1.16 (max 1.03 (bw * (0.65 + 0.35 * b)))"
  have ba: "clamp (Fin bw * (Fin 0.65 + Fin 0.35 * Fin b)) (Fin 1.03) (Fin 1.16) = Fin ba"
    unfolding ba_def by (simp add: clamp_Fin)
  define p where "p = 1500 powr ba"
  have pp: "0 < p" unfolding p_def by simp
  have a': "Fin x1 / Math_pow (Fin 1500) (Fin ba) = Fin (x1 / p)"
    using pp by (simp add: Math_pow_pos p_def del: Math_pow.simps)
  have ap: "0 < x1 / p" using x1p pp by simp
  define tp where "tp = x1 / p * m powr ba"
  have mp: "0 < m powr ba" using m by simp
  have tpp: "0 < tp" unfolding tp_def using ap mp by (rule mult_pos_pos)
  have tp: "Fin (x1 / p) * Math_pow (Fin m) (Fin ba) = Fin tp"
    by (simp add: Math_pow_pos [OF m] tp_def del: Math_pow.simps)
  define pu where "pu = m / (0.90 * au)"
  have pup: "0 < pu" unfolding pu_def using m au(2) by simp
  have pu: "Fin m / (Fin 0.90 * Fin au) = Fin pu"
    unfolding pu_def using au(2) by simp
  have bias: "Fin 0.35 + Fin 0.45 * Fin a = Fin (0.35 + 0.45 * a)" by simp
  show ?thesis
    unfolding workoutCurve_def Let_def mu(1) tu(1) au(1) x1 x2 bw ba a' tp pu bias
      Math_log_pos [OF pup] Math_log_pos [OF tpp]
    using tpp by simp
qed

lemma TYPE_WEIGHTS_Fin: "map_of TYPE_WEIGHTS k = Some (a, b) \<Longrightarrow> \<exists>x y. a = Fin x \<and> b = Fin y"
  by (auto simp: TYPE_WEIGHTS_def split: if_splits)

lemma typeWeights_Fin: "typeWeights k = Inr (a, b) \<Longrightarrow> \<exists>x y. a = Fin x \<and> b = Fin y"
  by (auto simp: typeWeights_def getProperty_def split: option.splits if_splits
           dest: TYPE_WEIGHTS_Fin)

lemma RIEGEL_BY_TYPE_Fin: "map_of RIEGEL_BY_TYPE k = Some b \<Longrightarrow> \<exists>e. orElse b (Fin 1.08) = Fin e"
  by (auto simp: RIEGEL_BY_TYPE_def orElse_def split: if_splits)

lemma riegelExponent_Fin:
  assumes "k \<notin> set objectPrototypeKeys"
  shows "\<exists>e. riegelExponent k = Fin e"
proof (cases "map_of RIEGEL_BY_TYPE k")
  case None
  then have "riegelExponent k = Fin 1.08"
    using assms by (simp add: riegelExponent_def getProperty_def)
  then show ?thesis by (rule exI)
next
  case (Some b)
  then have "riegelExponent k = orElse b (Fin 1.08)"
    by (simp add: riegelExponent_def getProperty_def)
  with RIEGEL_BY_TYPE_Fin [OF Some] show ?thesis by auto
qed

lemma riegelPredict_positive:
  assumes "0 < t" and "0 < d1" and "0 < d2"
  shows "\<exists>v. riegelPredict (Fin t) (Fin d1) (Fin d2) (Fin e) = Fin v \<and> 0 < v"
proof -
  have q: "0 < d2 / d1" using assms by simp
  have "riegelPredict (Fin t) (Fin d1) (Fin d2) (Fin e) = Fin (t * (d2 / d1) powr e)"
    using assms(2) by (simp add: riegelPredict_def Math_pow_pos [OF q] del: Math_pow.simps)
  moreover have "0 < (d2 / d1) powr e" using assms(2,3) by simp
  then have "0 < t * (d2 / d1) powr e" using assms(1) by (intro mult_pos_pos)
  ultimately show ?thesis by blast
qed

lemma blend_ln_Fin: "0 < v \<Longrightarrow> blend_ln (Fin v) = Fin (ln (max (1 / 10 ^ 6) v))"
  by (simp add: blend_ln_def max_def)

lemma tBlend_Fin:
  assumes "0 < w" and "0 < b"
  shows "Math_exp (Fin x * blend_ln (Fin w) + (Fin 1 - Fin x) * blend_ln (Fin b))
         = Fin (exp (x * ln (max (1 / 10 ^ 6) w) + (1 - x) * ln (max (1 / 10 ^ 6) b)))"
  by (simp add: blend_ln_Fin assms)

lemma blendPredictions_unfold:
  assumes "workoutTimeForDistance meters (aggregateFitness h ws) typeKey = Inr t"
  shows "blendPredictions h prTime prDist meters typeKey ws =
           Inr \<lparr> base = riegelPredict prTime prDist meters (riegelExponent typeKey),
                 wkt = t,
                 tBlend = Math_exp (blend_dataWt h ws * blend_ln t
                            + (Fin 1 - blend_dataWt h ws)
                              * blend_ln (riegelPredict prTime prDist meters
                                            (riegelExponent typeKey))),
                 fitness = aggregateFitness h ws,
                 dataWt = blend_dataWt h ws \<rparr>"
  by (simp add: blendPredictions_def Let_def assms)

lemma blendPredictions_finite_positive:
  assumes pr: "0 < prTime" "0 < prDist" and m: "0 < meters"
      and key: "typeKey \<notin> set objectPrototypeKeys"
      and ok: "\<forall>w\<in>set ws. okWorkout w"
  shows "\<exists>r b w t. blendPredictions h (Fin prTime) (Fin prDist) (Fin meters) typeKey ws = Inr r
           \<and> base r = Fin b \<and> 0 < b \<and> wkt r = Fin w \<and> 0 < w \<and> tBlend r = Fin t \<and> 0 < t"
proof -
  obtain p where p: "typeWeights typeKey = Inr p" using typeWeights_returns [OF key] by blast
  obtain wS wL where sl: "p = (wS, wL)" by (cases p)
  obtain a b where ab: "wS = Fin a" "wL = Fin b" using typeWeights_Fin p sl by blast
  obtain w where w: "workoutCurve (Fin meters) (aggregateFitness h ws) (Fin a) (Fin b) = Fin w"
      "0 < w"
    using workoutCurve_positive [OF _ _ _ m] aggregateFitness_good [OF ok] by blast
  have wt: "workoutTimeForDistance (Fin meters) (aggregateFitness h ws) typeKey = Inr (Fin w)"
    by (simp add: workoutTimeForDistance_def p sl ab w(1))
  obtain e where e: "riegelExponent typeKey = Fin e" using riegelExponent_Fin [OF key] by blast
  obtain v where v: "riegelPredict (Fin prTime) (Fin prDist) (Fin meters) (Fin e) = Fin v" "0 < v"
    using riegelPredict_positive [OF pr m] by blast
  obtain x where x: "blend_dataWt h ws = Fin x" using blend_dataWt_range by blast
  show ?thesis
    unfolding blendPredictions_unfold [OF wt] e v(1) x tBlend_Fin [OF w(2) v(2)]
    using w(2) v(2) by simp
qed











end
